theory Spec2Isabelle
  imports Complex_Main
begin

section \<open>Data model\<close>

text \<open>
  The program is a single Python script, \<^verbatim>\<open>data_scripts/vix-spy-average.py\<close>, working on
  pandas data frames. A frame is modelled as the list of its rows in index order; the
  index label of a row is its \<open>Date\<close>. The floating-point columns hold \<open>flt\<close> values:
  \<open>None\<close> is NaN (the missing value that \<^verbatim>\<open>pct_change\<close> leaves in the first row and
  that \<^verbatim>\<open>dropna\<close> removes), \<open>Some x\<close> a finite number, with real arithmetic in place of
  IEEE rounding. Where a metric divides by zero or takes a power that is not finite, the
  result is \<open>None\<close> as well.
\<close>

text \<open>
  The exceptions that leave the modelled functions: \<^verbatim>\<open>IndexError\<close> from \<^verbatim>\<open>strategy[i]\<close> on a
  table that is too short and from a boolean mask of the wrong length, \<^verbatim>\<open>TypeError\<close> from
  a mask that pandas cannot align, \<^verbatim>\<open>ZeroDivisionError\<close> from \<^verbatim>\<open>1 / num_years\<close>.
\<close>

datatype error = IndexError | TypeError | ZeroDivisionError

type_synonym date = nat

type_synonym flt = "real option"

text \<open>
  A row of \<^verbatim>\<open>spy_df\<close>. The last four columns are the ones \<^verbatim>\<open>implement_strategy\<close>
  writes; on a frame that never went through it they do not exist yet, and the
  function overwrites whatever they hold.
\<close>

record day =
  Date :: date
  Adj_Close :: flt
  Daily_Return :: flt
  SPY_Allocation :: real
  SH_Allocation :: real
  VIX_Level :: nat
  Portfolio_Return :: flt

text \<open>Of \<^verbatim>\<open>vix_df\<close> the program reads only the index and the column \<^verbatim>\<open>'Adj Close'\<close>.\<close>

type_synonym vix_frame = "(date \<times> flt) list"

definition flt_ge :: "flt \<Rightarrow> nat \<Rightarrow> bool" where
  "flt_ge v i = (case v of None \<Rightarrow> False | Some x \<Rightarrow> real i \<le> x)"

definition flt_eq :: "flt \<Rightarrow> nat \<Rightarrow> bool" where
  "flt_eq v i = (case v of None \<Rightarrow> False | Some x \<Rightarrow> x = real i)"

definition flt_times :: "flt \<Rightarrow> real \<Rightarrow> flt" where
  "flt_times v a = (case v of None \<Rightarrow> None | Some x \<Rightarrow> Some (x * a))"

definition flt_minus :: "flt \<Rightarrow> flt \<Rightarrow> flt" where
  "flt_minus v w = (case v of None \<Rightarrow> None | Some x \<Rightarrow>
     (case w of None \<Rightarrow> None | Some y \<Rightarrow> Some (x - y)))"

section \<open>Masked assignment\<close>

text \<open>
  \<^verbatim>\<open>spy_df.loc[mask, column] = value\<close> with a boolean Series \<open>mask\<close> taken from
  \<^verbatim>\<open>vix_df\<close>. pandas uses the mask by position when its index equals the frame's index.
  Otherwise it looks every label of the frame up in the mask's index:
  \<^item> when a label is missing, pandas suppresses its own alignment error and the
    assignment fails with \<^verbatim>\<open>TypeError\<close> (unhashable type: 'Series');
  \<^item> otherwise the mask's entries for the frame's labels, in the frame's order, are the
    boolean mask. Labels of the mask that the frame does not have are dropped. A label
    that the mask holds more than once contributes all its entries, so the mask is longer
    than the frame and the assignment fails with \<^verbatim>\<open>IndexError\<close> (boolean index of the
    wrong length).
\<close>

definition entries_of :: "(date \<times> 'a) list \<Rightarrow> date \<Rightarrow> 'a list" where
  "entries_of key d = map snd (filter (\<lambda>p. fst p = d) key)"

definition align_mask :: "date list \<Rightarrow> (date \<times> bool) list \<Rightarrow> error + bool list" where
  "align_mask idx key =
     (if map fst key = idx then Inr (map snd key)
      else if list_ex (\<lambda>d. entries_of key d = []) idx then Inl TypeError
      else
        let bs = concat (map (entries_of key) idx)
        in if length bs = length idx then Inr bs else Inl IndexError)"

definition loc_assign ::
  "(date \<times> bool) list \<Rightarrow> (day \<Rightarrow> day) \<Rightarrow> day list \<Rightarrow> error + day list" where
  "loc_assign key upd df =
     (case align_mask (map Date df) key of
        Inl e \<Rightarrow> Inl e
      | Inr bs \<Rightarrow> Inr (map (\<lambda>(b, d). if b then upd d else d) (zip bs df)))"

definition bind_err :: "error + 'a \<Rightarrow> ('a \<Rightarrow> error + 'b) \<Rightarrow> error + 'b" where
  "bind_err m f = (case m of Inl e \<Rightarrow> Inl e | Inr a \<Rightarrow> f a)"

section \<open>The strategy simulator\<close>

text \<open>The two comparisons of the loop body, as boolean Series over the index of \<^verbatim>\<open>vix_df\<close>.\<close>

definition ge_mask :: "vix_frame \<Rightarrow> nat \<Rightarrow> (date \<times> bool) list" where
  "ge_mask vix_df i = map (\<lambda>(d, v). (d, flt_ge v i)) vix_df"

definition eq_mask :: "vix_frame \<Rightarrow> nat \<Rightarrow> (date \<times> bool) list" where
  "eq_mask vix_df i = map (\<lambda>(d, v). (d, flt_eq v i)) vix_df"

text \<open>
  The three assignments of one branch of the loop body; each evaluates its own mask.
\<close>

definition assign_level ::
  "(date \<times> bool) list \<Rightarrow> real \<Rightarrow> nat \<Rightarrow> day list \<Rightarrow> error + day list" where
  "assign_level key allocation i spy_df =
     bind_err (loc_assign key (\<lambda>d. d\<lparr>SPY_Allocation := allocation\<rparr>) spy_df) (\<lambda>df1.
     bind_err (loc_assign key (\<lambda>d. d\<lparr>SH_Allocation := 1 - allocation\<rparr>) df1) (\<lambda>df2.
     loc_assign key (\<lambda>d. d\<lparr>VIX_Level := i\<rparr>) df2))"

text \<open>
  One iteration of \<^verbatim>\<open>for i in range(37)\<close>: \<^verbatim>\<open>strategy[i]\<close> raises \<^verbatim>\<open>IndexError\<close> on a
  table that is too short; level 36 is assigned by \<open>\<ge>\<close>, every other level by \<open>=\<close>.
\<close>

definition strategy_level :: "vix_frame \<Rightarrow> real list \<Rightarrow> nat \<Rightarrow> day list \<Rightarrow> error + day list" where
  "strategy_level vix_df strategy i spy_df =
     (if length strategy \<le> i then Inl IndexError
      else
        let allocation = strategy ! i
        in if i = 36 then assign_level (ge_mask vix_df i) allocation i spy_df
           else assign_level (eq_mask vix_df i) allocation i spy_df)"

fun for_each :: "(nat \<Rightarrow> 'a \<Rightarrow> error + 'a) \<Rightarrow> nat list \<Rightarrow> 'a \<Rightarrow> error + 'a" where
  "for_each body [] s = Inr s"
| "for_each body (i # is) s =
     (case body i s of Inl e \<Rightarrow> Inl e | Inr s' \<Rightarrow> for_each body is s')"

definition default_columns :: "day \<Rightarrow> day" where
  "default_columns d = d\<lparr>SPY_Allocation := 1, SH_Allocation := 0, VIX_Level := 0\<rparr>"

definition portfolio_column :: "day \<Rightarrow> day" where
  "portfolio_column d =
     d\<lparr>Portfolio_Return :=
         flt_minus (flt_times (Daily_Return d) (SPY_Allocation d))
                   (flt_times (Daily_Return d) (SH_Allocation d))\<rparr>"

definition implement_strategy :: "day list \<Rightarrow> vix_frame \<Rightarrow> real list \<Rightarrow> error + day list" where
  "implement_strategy spy_df vix_df strategy =
     (case for_each (strategy_level vix_df strategy) [0..<37] (map default_columns spy_df) of
        Inl e \<Rightarrow> Inl e
      | Inr df \<Rightarrow> Inr (map portfolio_column df))"

section \<open>Performance metrics\<close>

text \<open>
  \<^verbatim>\<open>Series.dropna()\<close>: the entries that are not NaN, with their index labels.
\<close>

definition dropna :: "(date \<times> flt) list \<Rightarrow> (date \<times> real) list" where
  "dropna s = List.map_filter (\<lambda>(d, v). map_option (Pair d) v) s"

definition Portfolio_Return_series :: "day list \<Rightarrow> (date \<times> flt) list" where
  "Portfolio_Return_series df = map (\<lambda>d. (Date d, Portfolio_Return d)) df"

text \<open>
  \<^verbatim>\<open>x ** y\<close> on floating-point numbers: an integral exponent is a repeated product or
  quotient, a negative base with any other exponent gives NaN, and zero to a negative
  power is not finite.
\<close>

definition float_pow :: "real \<Rightarrow> real \<Rightarrow> flt" where
  "float_pow x y =
     (if x = 0 \<and> y < 0 then None
      else if y = of_int \<lfloor>y\<rfloor> then Some (x powi \<lfloor>y\<rfloor>)
      else if x < 0 then None
      else Some (x powr y))"

text \<open>
  \<^verbatim>\<open>1 / num_years\<close> divides two Python numbers, so an empty series raises
  \<^verbatim>\<open>ZeroDivisionError\<close>.
\<close>

definition calculate_annual_return :: "real list \<Rightarrow> error + flt" where
  "calculate_annual_return returns =
     (let cumulative_return = prod_list (map (\<lambda>r. 1 + r) returns);
          num_years = real (length returns) / 252
      in if num_years = 0 then Inl ZeroDivisionError
         else Inr (map_option (\<lambda>p. p - 1) (float_pow cumulative_return (1 / num_years))))"

definition mean :: "real list \<Rightarrow> flt" where
  "mean xs = (if xs = [] then None else Some (sum_list xs / real (length xs)))"

text \<open>\<^verbatim>\<open>Series.std()\<close>: the sample standard deviation, NaN below two values.\<close>

definition std :: "real list \<Rightarrow> flt" where
  "std xs =
     (if length xs < 2 then None
      else let m = sum_list xs / real (length xs)
           in Some (sqrt (sum_list (map (\<lambda>x. (x - m)\<^sup>2) xs) / real (length xs - 1))))"

definition calculate_sharpe_ratio :: "real list \<Rightarrow> real \<Rightarrow> flt" where
  "calculate_sharpe_ratio returns risk_free_rate =
     (case mean returns of None \<Rightarrow> None
      | Some avg_return \<Rightarrow>
          (case std returns of None \<Rightarrow> None
           | Some std_dev \<Rightarrow>
               if std_dev = 0 then None else Some ((avg_return - risk_free_rate) / std_dev)))"

text \<open>
  \<^verbatim>\<open>returns.resample('M')\<close> groups a dated series by calendar month. The grouping is
  pandas' own and is a parameter here: it gives the values of each month, in order.
\<close>

type_synonym resampler = "(date \<times> real) list \<Rightarrow> real list list"

definition calculate_monthly_volatility :: "resampler \<Rightarrow> (date \<times> real) list \<Rightarrow> flt" where
  "calculate_monthly_volatility resample_M returns =
     (let monthly_returns = map (\<lambda>x. prod_list (map (\<lambda>r. 1 + r) x) - 1) (resample_M returns)
      in std monthly_returns)"

section \<open>Objective functions\<close>

text \<open>
  Both objectives run \<^verbatim>\<open>implement_strategy\<close> on \<^verbatim>\<open>spy_df.copy()\<close>: the caller's frame
  is not changed, so they return a value only.
\<close>

definition objective_function_annual_return :: "real list \<Rightarrow> day list \<Rightarrow> vix_frame \<Rightarrow> error + flt" where
  "objective_function_annual_return strategy spy_df vix_df =
     (case implement_strategy spy_df vix_df strategy of
        Inl e \<Rightarrow> Inl e
      | Inr df \<Rightarrow>
          (case calculate_annual_return (map snd (dropna (Portfolio_Return_series df))) of
             Inl e \<Rightarrow> Inl e
           | Inr annual_return \<Rightarrow> Inr (map_option uminus annual_return)))"

definition objective_function_monthly_volatility ::
  "resampler \<Rightarrow> real list \<Rightarrow> day list \<Rightarrow> vix_frame \<Rightarrow> error + flt" where
  "objective_function_monthly_volatility resample_M strategy spy_df vix_df =
     (case implement_strategy spy_df vix_df strategy of
        Inl e \<Rightarrow> Inl e
      | Inr df \<Rightarrow> Inr (calculate_monthly_volatility resample_M (dropna (Portfolio_Return_series df))))"

section \<open>Optimizer driver\<close>

text \<open>
  The fields of scipy's \<^verbatim>\<open>OptimizeResult\<close> that \<^verbatim>\<open>main\<close> reads.
\<close>

record opt_result =
  opt_x :: "real list"
  success :: bool
  message :: string

text \<open>
  \<^verbatim>\<open>scipy.optimize.minimize(fun, x0, args, bounds, method='SLSQP')\<close> is a library call
  and a parameter of the model: from the objective, the initial table and the bounds
  it gives a result, or the exception that the objective raised.
\<close>

type_synonym solver =
  "(real list \<Rightarrow> error + flt) \<Rightarrow> real list \<Rightarrow> (real \<times> real) list \<Rightarrow> error + opt_result"

definition strategy_bounds :: "real list \<Rightarrow> (real \<times> real) list" where
  "strategy_bounds initial_strategy = map (\<lambda>_. (0.01, 0.99)) initial_strategy"

definition result_annual :: "solver \<Rightarrow> day list \<Rightarrow> vix_frame \<Rightarrow> real list \<Rightarrow> error + opt_result" where
  "result_annual minimize spy_df vix_df initial_strategy =
     minimize (\<lambda>strategy. objective_function_annual_return strategy spy_df vix_df)
       initial_strategy (strategy_bounds initial_strategy)"

definition result_monthly_volatility ::
  "solver \<Rightarrow> resampler \<Rightarrow> day list \<Rightarrow> vix_frame \<Rightarrow> real list \<Rightarrow> error + opt_result" where
  "result_monthly_volatility minimize resample_M spy_df vix_df initial_strategy =
     minimize (\<lambda>strategy. objective_function_monthly_volatility resample_M strategy spy_df vix_df)
       initial_strategy (strategy_bounds initial_strategy)"

text \<open>
  What \<^verbatim>\<open>main\<close> emits, in order. \<open>Uncaught\<close> ends the list when an exception leaves
  \<^verbatim>\<open>main\<close>.
\<close>

datatype event =
    Print_failed string string
  | Print_allocations string "(nat \<times> real \<times> real) list"
  | Print_tail "day list"
  | To_csv string "day list"
  | To_csv_vix string vix_frame
  | Print_line string
  | Print_sharpe flt
  | Uncaught error

definition allocation_lines :: "real list \<Rightarrow> (nat \<times> real \<times> real) list" where
  "allocation_lines strategy =
     map (\<lambda>(level, allocation). (level, allocation, 1 - allocation))
       (zip [0..<length strategy] strategy)"

definition tail :: "nat \<Rightarrow> 'a list \<Rightarrow> 'a list" where
  "tail n xs = drop (length xs - n) xs"

text \<open>
  The reporting of \<^verbatim>\<open>main\<close> once both optimizations have succeeded (lines 304 to 327).
  The charts that follow are not modelled.
\<close>

definition report :: "day list \<Rightarrow> vix_frame \<Rightarrow> real list \<Rightarrow> real list \<Rightarrow> event list" where
  "report spy_df vix_df optimal_strategy_annual optimal_strategy_monthly_volatility =
     (let risk_free_rate = 0.0001 in
      [Print_allocations ''Optimal Strategy Allocations for Average Annual Return:''
         (allocation_lines optimal_strategy_annual),
       Print_allocations ''Optimal Strategy Allocations for Monthly Volatility:''
         (allocation_lines optimal_strategy_monthly_volatility)] @
      (case implement_strategy spy_df vix_df optimal_strategy_annual of
         Inl e \<Rightarrow> [Uncaught e]
       | Inr spy_df_annual \<Rightarrow>
           (case implement_strategy spy_df vix_df optimal_strategy_monthly_volatility of
              Inl e \<Rightarrow> [Uncaught e]
            | Inr spy_df_monthly_volatility \<Rightarrow>
                [Print_tail (tail 30 spy_df_annual),
                 To_csv ''prepared_SPY_annual.csv'' spy_df_annual,
                 To_csv ''prepared_SPY_monthly_volatility.csv'' spy_df_monthly_volatility,
                 To_csv_vix ''prepared_VIX.csv'' vix_df,
                 Print_line ''Data update and preparation complete. Prepared data saved to CSV files.'',
                 Print_sharpe
                   (calculate_sharpe_ratio
                      (map snd (dropna (Portfolio_Return_series spy_df_annual)))
                      risk_free_rate)])))"

text \<open>
  \<^verbatim>\<open>main\<close> from the prepared frames on (line 281): the download and the alignment
  before it belong to the data layer.
\<close>

definition main :: "solver \<Rightarrow> resampler \<Rightarrow> day list \<Rightarrow> vix_frame \<Rightarrow> real list \<Rightarrow> event list" where
  "main minimize resample_M spy_df vix_df initial_strategy =
     (case result_annual minimize spy_df vix_df initial_strategy of
        Inl e \<Rightarrow> [Uncaught e]
      | Inr res_annual \<Rightarrow>
          if \<not> success res_annual
          then [Print_failed ''Optimization for average annual return failed:'' (message res_annual)]
          else
            (case result_monthly_volatility minimize resample_M spy_df vix_df initial_strategy of
               Inl e \<Rightarrow> [Uncaught e]
             | Inr res_monthly \<Rightarrow>
                 if \<not> success res_monthly
                 then [Print_failed ''Optimization for monthly volatility failed:'' (message res_monthly)]
                 else report spy_df vix_df (opt_x res_annual) (opt_x res_monthly)))"

text \<open>
  The box constraint of the solver: given one bound per entry of the initial table, none
  of them empty, a result has one entry per bound, each inside it.
\<close>

definition within_bounds :: "(real \<times> real) list \<Rightarrow> real list \<Rightarrow> bool" where
  "within_bounds bounds xs = list_all2 (\<lambda>(lo, hi) v. lo \<le> v \<and> v \<le> hi) bounds xs"

definition respects_bounds :: "solver \<Rightarrow> bool" where
  "respects_bounds minimize =
     (\<forall>objective x0 bounds res.
        length bounds = length x0 \<and> list_all (\<lambda>(lo, hi). lo \<le> hi) bounds
          \<and> minimize objective x0 bounds = Inr res
        \<longrightarrow> within_bounds bounds (opt_x res))"

text \<open>The events that carry an optimized table, a simulated frame or a metric.\<close>

fun dependent_output :: "event \<Rightarrow> bool" where
  "dependent_output (Print_failed _ _) = False"
| "dependent_output (Uncaught _) = False"
| "dependent_output _ = True"

section \<open>What the loop computes\<close>

text \<open>
  The definitions of this section are not in the source: they describe, row by row,
  the result of the 37 iterations, and the lemmas below prove that the loop computes it.
  \<open>aligned_readings\<close> is the volatility reading pandas pairs with each row of the
  frame (the alignment of \<open>align_mask\<close>, on the readings themselves), \<open>row_step\<close> the effect of iteration \<open>i\<close> on one row, \<open>matched_level\<close> the
  level whose mask holds for a reading, \<open>level_row\<close> the row after all iterations.
\<close>

definition aligned_readings :: "date list \<Rightarrow> vix_frame \<Rightarrow> error + flt list" where
  "aligned_readings idx vix_df =
     (if map fst vix_df = idx then Inr (map snd vix_df)
      else if list_ex (\<lambda>d. entries_of vix_df d = []) idx then Inl TypeError
      else
        let vs = concat (map (entries_of vix_df) idx)
        in if length vs = length idx then Inr vs else Inl IndexError)"

definition level_matches :: "nat \<Rightarrow> flt \<Rightarrow> bool" where
  "level_matches i v = (if i = 36 then flt_ge v i else flt_eq v i)"

definition row_step :: "real list \<Rightarrow> flt \<Rightarrow> nat \<Rightarrow> day \<Rightarrow> day" where
  "row_step strategy v i d =
     (if level_matches i v
      then d\<lparr>SPY_Allocation := strategy ! i, SH_Allocation := 1 - strategy ! i, VIX_Level := i\<rparr>
      else d)"

definition matched_level :: "flt \<Rightarrow> nat option" where
  "matched_level v =
     (case v of None \<Rightarrow> None
      | Some x \<Rightarrow>
          if 36 \<le> x then Some 36
          else if 0 \<le> x \<and> x = of_int \<lfloor>x\<rfloor> then Some (nat \<lfloor>x\<rfloor>)
          else None)"

definition level_row :: "real list \<Rightarrow> flt \<Rightarrow> day \<Rightarrow> day" where
  "level_row strategy v d =
     (case matched_level v of
        None \<Rightarrow> d
      | Some i \<Rightarrow> d\<lparr>SPY_Allocation := strategy ! i, SH_Allocation := 1 - strategy ! i,
                   VIX_Level := i\<rparr>)"

section \<open>Concrete inputs\<close>

text \<open>
  Frames, tables and solvers used as instances of the theorems below.
\<close>

definition example_day :: "date \<Rightarrow> flt \<Rightarrow> day" where
  "example_day n r =
     \<lparr>Date = n, Adj_Close = Some 100, Daily_Return = r, SPY_Allocation = 0,
      SH_Allocation = 0, VIX_Level = 0, Portfolio_Return = None\<rparr>"

definition example_table :: "real list" where
  "example_table = (replicate 37 (1 / 2))[5 := 1, 12 := 3 / 10, 35 := 7 / 10, 36 := 1 / 5]"

definition levels_spy :: "day list" where
  "levels_spy =
     [example_day 1 (Some (1 / 100)), example_day 2 None, example_day 3 (Some (1 / 50)),
      example_day 4 (Some 0)]"

definition levels_vix :: vix_frame where
  "levels_vix = [(1, Some (3599 / 100)), (2, Some 36), (3, Some 500), (4, Some 12)]"

definition levels_out :: "day list" where
  "levels_out =
     [(example_day 1 (Some (1 / 100)))
        \<lparr>SPY_Allocation := 1, SH_Allocation := 0, VIX_Level := 0,
          Portfolio_Return := Some (1 / 100)\<rparr>,
      (example_day 2 None)
        \<lparr>SPY_Allocation := 1 / 5, SH_Allocation := 4 / 5, VIX_Level := 36,
          Portfolio_Return := None\<rparr>,
      (example_day 3 (Some (1 / 50)))
        \<lparr>SPY_Allocation := 1 / 5, SH_Allocation := 4 / 5, VIX_Level := 36,
          Portfolio_Return := Some (- (3 / 250))\<rparr>,
      (example_day 4 (Some 0))
        \<lparr>SPY_Allocation := 3 / 10, SH_Allocation := 7 / 10, VIX_Level := 12,
          Portfolio_Return := Some 0\<rparr>]"





definition scenario_spy :: "day list" where
  "scenario_spy =
     [example_day 1 (Some (1 / 100)), example_day 2 (Some (- (1 / 100))),
      example_day 3 (Some (2 / 100))]"

definition scenario_vix :: vix_frame where
  "scenario_vix = [(1, Some 5), (2, Some 40), (3, Some 5)]"

definition scenario_out :: "day list" where
  "scenario_out =
     [(example_day 1 (Some (1 / 100)))
        \<lparr>SPY_Allocation := 1, SH_Allocation := 0, VIX_Level := 5,
          Portfolio_Return := Some (1 / 100)\<rparr>,
      (example_day 2 (Some (- (1 / 100))))
        \<lparr>SPY_Allocation := 1 / 5, SH_Allocation := 4 / 5, VIX_Level := 36,
          Portfolio_Return := Some (6 / 1000)\<rparr>,
      (example_day 3 (Some (2 / 100)))
        \<lparr>SPY_Allocation := 1, SH_Allocation := 0, VIX_Level := 5,
          Portfolio_Return := Some (2 / 100)\<rparr>]"

definition half_spy :: "day list" where
  "half_spy = [example_day 1 (Some (1 / 100)), example_day 2 (Some (1 / 50))]"

definition half_vix :: vix_frame where
  "half_vix = [(1, Some (35 / 2)), (2, Some 20)]"

definition half_out :: "day list" where
  "half_out =
     [(example_day 1 (Some (1 / 100)))
        \<lparr>SPY_Allocation := 1, SH_Allocation := 0, VIX_Level := 0,
          Portfolio_Return := Some (1 / 100)\<rparr>,
      (example_day 2 (Some (1 / 50)))
        \<lparr>SPY_Allocation := 1 / 2, SH_Allocation := 1 / 2, VIX_Level := 20,
          Portfolio_Return := Some 0\<rparr>]"

definition nan_spy :: "day list" where
  "nan_spy = [example_day 1 None]"

definition nan_vix :: vix_frame where
  "nan_vix = [(1, Some 20)]"

definition nan_out :: "day list" where
  "nan_out =
     [(example_day 1 None)
        \<lparr>SPY_Allocation := 1 / 2, SH_Allocation := 1 / 2, VIX_Level := 20,
          Portfolio_Return := None\<rparr>]"

definition clip :: "(real \<times> real) list \<Rightarrow> real list \<Rightarrow> real list" where
  "clip bounds xs = map (\<lambda>((lo, hi), v). max lo (min hi v)) (zip bounds xs)"

definition probe_minimize :: solver where
  "probe_minimize objective x0 bounds =
     (case objective x0 of
        Inl e \<Rightarrow> Inl e
      | Inr v \<Rightarrow>
          Inr \<lparr>opt_x = clip bounds x0, success = (v \<noteq> None),
               message = (if v \<noteq> None then ''Optimization terminated successfully''
                          else ''Iteration limit reached'')\<rparr>)"

definition clip_minimize :: solver where
  "clip_minimize objective x0 bounds =
     Inr \<lparr>opt_x = clip bounds x0, success = True,
          message = ''Optimization terminated successfully''\<rparr>"

definition failing_minimize :: solver where
  "failing_minimize objective x0 bounds =
     Inr \<lparr>opt_x = x0, success = False, message = ''Iteration limit reached''\<rparr>"

definition one_month :: resampler where
  "one_month returns = [map snd returns]"

definition clipped_table :: "real list" where
  "clipped_table = (replicate 37 (1 / 2))[5 := 99 / 100, 12 := 3 / 10, 35 := 7 / 10, 36 := 1 / 5]"

section \<open>Lemmas about the model\<close>

lemma entries_of_map:
  "entries_of (map (\<lambda>(d, v). (d, P v)) xs) k = map P (entries_of xs k)"
  by (induction xs) (auto simp: entries_of_def)

lemma align_mask_readings:
  "align_mask idx (map (\<lambda>(d, v). (d, P v)) vix_df) =
     (case aligned_readings idx vix_df of Inl e \<Rightarrow> Inl e | Inr vs \<Rightarrow> Inr (map P vs))"
proof -
  let ?key = "map (\<lambda>(d, v). (d, P v)) vix_df"
  have fst_eq: "map fst ?key = map fst vix_df"
    by (induction vix_df) auto
  have snd_eq: "map snd ?key = map P (map snd vix_df)"
    by (induction vix_df) auto
  have "entries_of ?key = (\<lambda>k. map P (entries_of vix_df k))"
    by (rule ext) (rule entries_of_map)
  then have bs: "concat (map (entries_of ?key) idx) = map P (concat (map (entries_of vix_df) idx))"
    by (simp add: map_concat comp_def)
  show ?thesis
    unfolding align_mask_def aligned_readings_def fst_eq snd_eq bs Let_def
    by (simp add: entries_of_map)
qed

lemma aligned_readings_length:
  "aligned_readings idx vix_df = Inr vs \<Longrightarrow> length vs = length idx"
  by (auto simp: aligned_readings_def Let_def split: if_splits)

lemma rows_compose:
  "length vs = length df \<Longrightarrow>
   map (\<lambda>(v, d). g v d) (zip vs (map (\<lambda>(v, d). f v d) (zip vs df)))
     = map (\<lambda>(v, d). g v (f v d)) (zip vs df)"
  by (induction vs df rule: list_induct2) auto

lemma loc_assign_rows:
  assumes "aligned_readings (map Date df) vix_df = Inr vs"
  shows "loc_assign (map (\<lambda>(d, v). (d, P v)) vix_df) upd df =
           Inr (map (\<lambda>(v, d). if P v then upd d else d) (zip vs df))"
  using assms by (simp add: loc_assign_def align_mask_readings zip_map1 case_prod_beta)

lemma loc_assign_fails:
  assumes "aligned_readings (map Date df) vix_df = Inl e"
  shows "loc_assign (map (\<lambda>(d, v). (d, P v)) vix_df) upd df = Inl e"
  using assms by (simp add: loc_assign_def align_mask_readings)

lemma map_Date_rows:
  assumes "length vs = length df" and "\<And>v d. Date (f v d) = Date d"
  shows "map Date (map (\<lambda>(v, d). f v d) (zip vs df)) = map Date df"
  using assms by (induction vs df rule: list_induct2) auto

lemma assign_level_rows:
  assumes "aligned_readings (map Date df) vix_df = Inr vs"
  shows "assign_level (map (\<lambda>(d, v). (d, P v)) vix_df) a i df =
           Inr (map (\<lambda>(v, d). if P v
                  then d\<lparr>SPY_Allocation := a, SH_Allocation := 1 - a, VIX_Level := i\<rparr>
                  else d) (zip vs df))"
proof -
  have len: "length vs = length df"
    using aligned_readings_length [OF assms] by simp
  let ?f1 = "\<lambda>v d. if P v then d\<lparr>SPY_Allocation := a\<rparr> else d"
  let ?f2 = "\<lambda>v d. if P v then d\<lparr>SH_Allocation := 1 - a\<rparr> else d"
  let ?df1 = "map (\<lambda>(v, d). ?f1 v d) (zip vs df)"
  let ?df2 = "map (\<lambda>(v, d). ?f2 v d) (zip vs ?df1)"
  have d1: "map Date ?df1 = map Date df"
    by (rule map_Date_rows [OF len]) simp
  have len1: "length vs = length ?df1" using len by simp
  have d2: "map Date ?df2 = map Date df"
    using map_Date_rows [OF len1, of ?f2] d1 by simp
  have s1: "loc_assign (map (\<lambda>(d, v). (d, P v)) vix_df) (\<lambda>d. d\<lparr>SPY_Allocation := a\<rparr>) df = Inr ?df1"
    by (rule loc_assign_rows [OF assms])
  have s2: "loc_assign (map (\<lambda>(d, v). (d, P v)) vix_df) (\<lambda>d. d\<lparr>SH_Allocation := 1 - a\<rparr>) ?df1 = Inr ?df2"
    by (rule loc_assign_rows) (simp only: d1 assms)
  have s3: "loc_assign (map (\<lambda>(d, v). (d, P v)) vix_df) (\<lambda>d. d\<lparr>VIX_Level := i\<rparr>) ?df2
              = Inr (map (\<lambda>(v, d). if P v then d\<lparr>VIX_Level := i\<rparr> else d) (zip vs ?df2))"
    by (rule loc_assign_rows) (simp only: d2 assms)
  have c1: "map (\<lambda>(v, d). ?f2 v d) (zip vs ?df1) = map (\<lambda>(v, d). ?f2 v (?f1 v d)) (zip vs df)"
    by (rule rows_compose [OF len])
  have c2: "map (\<lambda>(v, d). if P v then d\<lparr>VIX_Level := i\<rparr> else d) (zip vs ?df2)
              = map (\<lambda>(v, d). (if P v then (?f2 v (?f1 v d))\<lparr>VIX_Level := i\<rparr> else ?f2 v (?f1 v d))) (zip vs df)"
    unfolding c1 by (rule rows_compose [OF len])
  show ?thesis
    unfolding assign_level_def s1 bind_err_def sum.case s2 s3 c2
    by (auto intro!: map_cong)
qed

lemma strategy_level_rows:
  assumes "aligned_readings (map Date df) vix_df = Inr vs" and "i < length strategy"
  shows "strategy_level vix_df strategy i df
           = Inr (map (\<lambda>(v, d). row_step strategy v i d) (zip vs df))"
proof (cases "i = 36")
  case True
  with assms(2) show ?thesis
    unfolding strategy_level_def ge_mask_def Let_def
    by (simp add: assign_level_rows [OF assms(1)] row_step_def level_matches_def)
next
  case False
  with assms(2) show ?thesis
    unfolding strategy_level_def eq_mask_def Let_def
    by (simp add: assign_level_rows [OF assms(1)] row_step_def level_matches_def)
qed

lemma strategy_level_fails:
  assumes "aligned_readings (map Date df) vix_df = Inl e" and "i < length strategy"
  shows "strategy_level vix_df strategy i df = Inl e"
  using assms
  unfolding strategy_level_def ge_mask_def eq_mask_def Let_def assign_level_def bind_err_def
  by (simp add: loc_assign_fails)

lemma strategy_level_short:
  "length strategy \<le> i \<Longrightarrow> strategy_level vix_df strategy i df = Inl IndexError"
  by (simp add: strategy_level_def)

lemma Date_row_step: "Date (row_step strategy v i d) = Date d"
  by (simp add: row_step_def)

lemma for_each_rows:
  assumes "aligned_readings (map Date df) vix_df = Inr vs"
    and "\<forall>i \<in> set js. i < length strategy"
  shows "for_each (strategy_level vix_df strategy) js df
           = Inr (map (\<lambda>(v, d). fold (row_step strategy v) js d) (zip vs df))"
  using assms
proof (induction js arbitrary: df)
  case Nil
  have "length vs = length df"
    using aligned_readings_length [OF Nil(1)] by simp
  then have "map (\<lambda>(v, d). d) (zip vs df) = df"
    by (induction vs df rule: list_induct2) auto
  then show ?case by simp
next
  case (Cons j js)
  have len: "length vs = length df"
    using aligned_readings_length [OF Cons.prems(1)] by simp
  let ?df1 = "map (\<lambda>(v, d). row_step strategy v j d) (zip vs df)"
  have step: "strategy_level vix_df strategy j df = Inr ?df1"
    using Cons.prems by (simp add: strategy_level_rows)
  have dates: "map Date ?df1 = map Date df"
    by (rule map_Date_rows [OF len]) (rule Date_row_step)
  have al: "aligned_readings (map Date ?df1) vix_df = Inr vs"
    unfolding dates by (rule Cons.prems(1))
  have rest: "\<forall>i \<in> set js. i < length strategy"
    using Cons.prems(2) by simp
  have "for_each (strategy_level vix_df strategy) js ?df1
          = Inr (map (\<lambda>(v, d). fold (row_step strategy v) js d) (zip vs ?df1))"
    by (rule Cons.IH [OF al rest])
  also have "map (\<lambda>(v, d). fold (row_step strategy v) js d) (zip vs ?df1)
          = map (\<lambda>(v, d). fold (row_step strategy v) js (row_step strategy v j d)) (zip vs df)"
    by (rule rows_compose [OF len])
  finally show ?case by (simp add: step)
qed

lemma for_each_append:
  "for_each body (xs @ ys) s =
     (case for_each body xs s of Inl e \<Rightarrow> Inl e | Inr s' \<Rightarrow> for_each body ys s')"
  by (induction xs arbitrary: s) (auto split: sum.splits)

lemma fold_eq_levels:
  assumes "n \<le> 36"
  shows "fold (row_step strategy v) [0..<n] d =
           (case v of None \<Rightarrow> d
            | Some x \<Rightarrow>
                if 0 \<le> x \<and> x = of_int \<lfloor>x\<rfloor> \<and> nat \<lfloor>x\<rfloor> < n
                then d\<lparr>SPY_Allocation := strategy ! nat \<lfloor>x\<rfloor>,
                       SH_Allocation := 1 - strategy ! nat \<lfloor>x\<rfloor>, VIX_Level := nat \<lfloor>x\<rfloor>\<rparr>
                else d)"
  using assms
proof (induction n)
  case 0
  then show ?case by (simp split: option.splits)
next
  case (Suc n)
  show ?case
  proof (cases v)
    case None
    with Suc show ?thesis by (simp add: row_step_def level_matches_def flt_eq_def)
  next
    case (Some x)
    have eqn: "flt_eq (Some x) n \<longleftrightarrow> 0 \<le> x \<and> x = of_int \<lfloor>x\<rfloor> \<and> nat \<lfloor>x\<rfloor> = n"
      by (auto simp: flt_eq_def)
    have n36: "n \<noteq> 36" using Suc.prems by simp
    define r where "r = fold (row_step strategy v) [0..<n] d"
    have ih: "r = (if 0 \<le> x \<and> x = of_int \<lfloor>x\<rfloor> \<and> nat \<lfloor>x\<rfloor> < n
                then d\<lparr>SPY_Allocation := strategy ! nat \<lfloor>x\<rfloor>,
                       SH_Allocation := 1 - strategy ! nat \<lfloor>x\<rfloor>, VIX_Level := nat \<lfloor>x\<rfloor>\<rparr>
                else d)"
      unfolding r_def using Suc Some by simp
    have "fold (row_step strategy v) [0..<Suc n] d = row_step strategy v n r"
      by (simp add: r_def)
    also have "\<dots> = (if 0 \<le> x \<and> x = of_int \<lfloor>x\<rfloor> \<and> nat \<lfloor>x\<rfloor> < Suc n
                then d\<lparr>SPY_Allocation := strategy ! nat \<lfloor>x\<rfloor>,
                       SH_Allocation := 1 - strategy ! nat \<lfloor>x\<rfloor>, VIX_Level := nat \<lfloor>x\<rfloor>\<rparr>
                else d)"
      unfolding ih Some row_step_def level_matches_def
      using n36 by (auto simp: eqn less_Suc_eq)
    finally show ?thesis
      by (simp add: Some)
  qed
qed

lemma fold_levels:
  "fold (row_step strategy v) [0..<37] d = level_row strategy v d"
proof -
  have "[0..<Suc 36] = [0..<36] @ [36]"
    by (rule upt_Suc_append) simp
  moreover have "(37::nat) = Suc 36" by simp
  ultimately have "[0..<37] = [0..<36] @ [36]"
    by (simp only:)
  hence "fold (row_step strategy v) [0..<37] d
           = row_step strategy v 36 (fold (row_step strategy v) [0..<36] d)"
    by simp
  also have "\<dots> = level_row strategy v d"
    by (cases v)
      (auto simp: fold_eq_levels row_step_def level_matches_def flt_ge_def
        level_row_def matched_level_def)
  finally show ?thesis .
qed

lemma Date_default_columns: "map Date (map default_columns df) = map Date df"
  by (simp add: default_columns_def)

lemma implement_strategy_eq:
  "implement_strategy spy_df vix_df strategy =
     (if strategy = [] then Inl IndexError
      else case aligned_readings (map Date spy_df) vix_df of
          Inl e \<Rightarrow> Inl e
        | Inr vs \<Rightarrow>
            if length strategy < 37 then Inl IndexError
            else Inr (map (\<lambda>(v, d). portfolio_column (level_row strategy v (default_columns d)))
                       (zip vs spy_df)))"
proof -
  let ?df0 = "map default_columns spy_df"
  let ?body = "strategy_level vix_df strategy"
  show ?thesis
  proof (cases "strategy = []")
    case True
    have "[0..<37] = 0 # [1..<37]" by (simp add: upt_conv_Cons)
    then show ?thesis
      using True by (simp add: implement_strategy_def strategy_level_short)
  next
    case nonempty: False
    show ?thesis
    proof (cases "aligned_readings (map Date spy_df) vix_df")
      case (Inl e)
      have "[0..<37] = 0 # [1..<37]" by (simp add: upt_conv_Cons)
      moreover have "aligned_readings (map Date ?df0) vix_df = Inl e"
        using Inl by (simp only: Date_default_columns)
      then have "?body 0 ?df0 = Inl e"
        by (rule strategy_level_fails) (use nonempty in simp)
      ultimately show ?thesis
        using nonempty Inl by (simp add: implement_strategy_def)
    next
      case (Inr vs)
      have al: "aligned_readings (map Date ?df0) vix_df = Inr vs"
        using Inr by (simp only: Date_default_columns)
      show ?thesis
      proof (cases "length strategy < 37")
        case True
        define n where "n = length strategy"
        have split: "[0..<37] = [0..<n] @ n # [Suc n..<37]"
          using True unfolding n_def
          by (metis upt_conv_Cons upt_add_eq_append le_add_diff_inverse less_imp_le zero_le)
        have "for_each ?body [0..<n] ?df0
                = Inr (map (\<lambda>(v, d). fold (row_step strategy v) [0..<n] d) (zip vs ?df0))"
          by (rule for_each_rows [OF al]) (simp add: n_def)
        moreover have "\<And>df. ?body n df = Inl IndexError"
          by (rule strategy_level_short) (simp add: n_def)
        ultimately have "for_each ?body [0..<37] ?df0 = Inl IndexError"
          unfolding split by (simp add: for_each_append)
        then show ?thesis
          using nonempty Inr True by (simp add: implement_strategy_def)
      next
        case False
        have "for_each ?body [0..<37] ?df0
                = Inr (map (\<lambda>(v, d). fold (row_step strategy v) [0..<37] d) (zip vs ?df0))"
          by (rule for_each_rows [OF al]) (use False in auto)
        then show ?thesis
          using nonempty Inr False
          by (simp add: implement_strategy_def fold_levels zip_map2 case_prod_beta comp_def)
      qed
    qed
  qed
qed

lemma aligned_readings_same:
  "map fst vix_df = idx \<Longrightarrow> aligned_readings idx vix_df = Inr (map snd vix_df)"
  by (simp add: aligned_readings_def)

lemma implement_strategy_aligned:
  assumes "map fst vix_df = map Date spy_df" and "37 \<le> length strategy"
  shows "implement_strategy spy_df vix_df strategy =
           Inr (map (\<lambda>(v, d). portfolio_column (level_row strategy v (default_columns d)))
                  (zip (map snd vix_df) spy_df))"
proof -
  have "strategy \<noteq> []" using assms(2) by auto
  moreover have "\<not> length strategy < 37" using assms(2) by simp
  ultimately show ?thesis
    by (simp add: implement_strategy_eq aligned_readings_same [OF assms(1)])
qed

lemma implement_strategy_Inr:
  assumes "implement_strategy spy_df vix_df strategy = Inr out"
  shows "37 \<le> length strategy
         \<and> (\<exists>vs. aligned_readings (map Date spy_df) vix_df = Inr vs \<and> length vs = length spy_df
              \<and> out = map (\<lambda>(v, d). portfolio_column (level_row strategy v (default_columns d)))
                         (zip vs spy_df))"
  using assms aligned_readings_length [of "map Date spy_df" vix_df]
  by (auto simp: implement_strategy_eq split: if_splits sum.splits)

lemma out_nth:
  assumes "implement_strategy spy_df vix_df strategy = Inr out"
    and "map fst vix_df = map Date spy_df" and "k < length spy_df"
  shows "out ! k = portfolio_column (level_row strategy (snd (vix_df ! k)) (default_columns (spy_df ! k)))"
proof -
  have len: "length vix_df = length spy_df"
    using assms(2) by (metis length_map)
  from implement_strategy_Inr [OF assms(1)]
  have "out = map (\<lambda>(v, d). portfolio_column (level_row strategy v (default_columns d)))
                (zip (map snd vix_df) spy_df)"
    by (auto simp: aligned_readings_same [OF assms(2)])
  then show ?thesis
    using assms(3) len by simp
qed

lemma matched_level_exact: "i < 36 \<Longrightarrow> matched_level (Some (real i)) = Some i"
  by (simp add: matched_level_def)


lemma level_row_fields:
  "SPY_Allocation (portfolio_column (level_row strategy v (default_columns d)))
     = (case matched_level v of None \<Rightarrow> 1 | Some i \<Rightarrow> strategy ! i)"
  "SH_Allocation (portfolio_column (level_row strategy v (default_columns d)))
     = (case matched_level v of None \<Rightarrow> 0 | Some i \<Rightarrow> 1 - strategy ! i)"
  "VIX_Level (portfolio_column (level_row strategy v (default_columns d)))
     = (case matched_level v of None \<Rightarrow> 0 | Some i \<Rightarrow> i)"
  "Daily_Return (portfolio_column (level_row strategy v (default_columns d))) = Daily_Return d"
  "Date (portfolio_column (level_row strategy v (default_columns d))) = Date d"
  "Adj_Close (portfolio_column (level_row strategy v (default_columns d))) = Adj_Close d"
  by (simp_all add: portfolio_column_def level_row_def default_columns_def split: option.splits)

lemma example_table_simps:
  "length example_table = 37" "example_table ! 5 = 1" "example_table ! 12 = 3 / 10"
  "example_table ! 35 = 7 / 10" "example_table ! 36 = 1 / 5"
  by (simp_all add: example_table_def)


lemma out_row:
  assumes "implement_strategy spy_df vix_df strategy = Inr out" and "d \<in> set out"
  shows "SH_Allocation d = 1 - SPY_Allocation d"
    and "Portfolio_Return d =
           flt_minus (flt_times (Daily_Return d) (SPY_Allocation d))
                     (flt_times (Daily_Return d) (SH_Allocation d))"
proof -
  from implement_strategy_Inr [OF assms(1)] assms(2)
  obtain v d0 where d: "d = portfolio_column (level_row strategy v (default_columns d0))"
    by auto
  show "SH_Allocation d = 1 - SPY_Allocation d"
    unfolding d level_row_fields by (simp split: option.splits)
  show "Portfolio_Return d =
           flt_minus (flt_times (Daily_Return d) (SPY_Allocation d))
                     (flt_times (Daily_Return d) (SH_Allocation d))"
    unfolding d by (simp add: portfolio_column_def)
qed

lemma out_Daily_Return:
  assumes "implement_strategy spy_df vix_df strategy = Inr out"
  shows "map Daily_Return out = map Daily_Return spy_df"
    and "map Date out = map Date spy_df"
    and "map Adj_Close out = map Adj_Close spy_df"
proof -
  from implement_strategy_Inr [OF assms]
  obtain vs where len: "length vs = length spy_df"
    and out: "out = map (\<lambda>(v, d). portfolio_column (level_row strategy v (default_columns d)))
                      (zip vs spy_df)"
    by auto
  have col: "map f out = map f spy_df"
    if "\<And>v d. f (portfolio_column (level_row strategy v (default_columns d))) = f d" for f :: "day \<Rightarrow> flt"
    unfolding out using len that
    by (induction vs spy_df rule: list_induct2) auto
  show "map Daily_Return out = map Daily_Return spy_df"
    by (rule col) (simp add: level_row_fields)
  show "map Adj_Close out = map Adj_Close spy_df"
    by (rule col) (simp add: level_row_fields)
  show "map Date out = map Date spy_df"
    unfolding out using len
    by (induction vs spy_df rule: list_induct2) (auto simp: level_row_fields)
qed

lemma flt_factored:
  "flt_minus (flt_times r a) (flt_times r (1 - a)) = flt_times r (2 * a - 1)"
  by (cases r) (simp_all add: flt_minus_def flt_times_def algebra_simps)

lemmas row_eval =
  portfolio_column_def level_row_def default_columns_def matched_level_def
  flt_minus_def flt_times_def example_day_def

lemma levels_aligned: "map fst levels_vix = map Date levels_spy"
  by (simp add: levels_vix_def levels_spy_def example_day_def)

lemma levels_run: "implement_strategy levels_spy levels_vix example_table = Inr levels_out"
  by (subst implement_strategy_aligned [OF levels_aligned])
    (simp_all add: example_table_simps row_eval levels_spy_def levels_vix_def levels_out_def)





lemma repeated_date_fails:
  "implement_strategy [example_day 1 (Some (1 / 100)), example_day 2 (Some (1 / 50))]
     [(1, Some 40), (1, Some 12), (2, Some 20)] example_table = Inl IndexError"
proof -
  have "aligned_readings (map Date [example_day 1 (Some (1 / 100)), example_day 2 (Some (1 / 50))])
          [(1, Some 40), (1, Some 12), (2, Some 20)] = Inl IndexError"
    by (simp add: aligned_readings_def entries_of_def example_day_def)
  moreover have "example_table \<noteq> []"
    using example_table_simps(1) by auto
  ultimately show ?thesis
    by (simp add: implement_strategy_eq)
qed

lemma prod_list_replicate: "prod_list (map (\<lambda>r. 1 + r) (replicate n r)) = (1 + r :: real) ^ n"
  by (induction n) simp_all

lemma scenario_aligned: "map fst scenario_vix = map Date scenario_spy"
  by (simp add: scenario_vix_def scenario_spy_def example_day_def)

lemma scenario_run: "implement_strategy scenario_spy scenario_vix example_table = Inr scenario_out"
  by (subst implement_strategy_aligned [OF scenario_aligned])
    (simp_all add: example_table_simps row_eval scenario_spy_def scenario_vix_def scenario_out_def)

lemma half_aligned: "map fst half_vix = map Date half_spy"
  by (simp add: half_vix_def half_spy_def example_day_def)

lemma half_run: "implement_strategy half_spy half_vix example_table = Inr half_out"
  by (subst implement_strategy_aligned [OF half_aligned])
    (simp_all add: example_table_simps example_table_def row_eval half_spy_def half_vix_def half_out_def)

lemma nan_aligned: "map fst nan_vix = map Date nan_spy"
  by (simp add: nan_vix_def nan_spy_def example_day_def)

lemma nan_run: "implement_strategy nan_spy nan_vix example_table = Inr nan_out"
  by (subst implement_strategy_aligned [OF nan_aligned])
    (simp_all add: example_table_simps example_table_def row_eval nan_spy_def nan_vix_def nan_out_def)

lemma row_cong:
  assumes "Date d = Date d'" "Adj_Close d = Adj_Close d'" "Daily_Return d = Daily_Return d'"
  shows "portfolio_column (level_row strategy v (default_columns d))
       = portfolio_column (level_row strategy v (default_columns d'))"
  using assms
  by (cases d; cases d')
    (simp add: portfolio_column_def level_row_def default_columns_def split: option.splits)

lemma rows_cong:
  assumes "length a = length b"
    and "map Date a = map Date b" "map Adj_Close a = map Adj_Close b"
    "map Daily_Return a = map Daily_Return b"
  shows "map (\<lambda>(v, d). portfolio_column (level_row strategy v (default_columns d))) (zip vs a)
       = map (\<lambda>(v, d). portfolio_column (level_row strategy v (default_columns d))) (zip vs b)"
  using assms
proof (induction a b arbitrary: vs rule: list_induct2)
  case Nil
  then show ?case by simp
next
  case (Cons x xs y ys)
  show ?case
  proof (cases vs)
    case Nil
    then show ?thesis by simp
  next
    case (Cons v vs')
    have "portfolio_column (level_row strategy v (default_columns x))
        = portfolio_column (level_row strategy v (default_columns y))"
      using Cons.prems by (intro row_cong) simp_all
    moreover have "map (\<lambda>(v, d). portfolio_column (level_row strategy v (default_columns d))) (zip vs' xs)
        = map (\<lambda>(v, d). portfolio_column (level_row strategy v (default_columns d))) (zip vs' ys)"
      using Cons.prems by (intro Cons.IH) simp_all
    ultimately show ?thesis
      using Cons by simp
  qed
qed

lemma implement_strategy_cong:
  assumes "map Date a = map Date b" "map Adj_Close a = map Adj_Close b"
    "map Daily_Return a = map Daily_Return b"
  shows "implement_strategy a vix_df strategy = implement_strategy b vix_df strategy"
proof -
  have len: "length a = length b"
    using assms(1) by (rule map_eq_imp_length_eq)
  note rows = rows_cong [OF len assms, of strategy]
  show ?thesis
    by (simp only: implement_strategy_eq assms(1) rows)
qed

lemma strategy_bounds_wf:
  "length (strategy_bounds initial_strategy) = length initial_strategy"
  "list_all (\<lambda>(lo, hi). lo \<le> hi) (strategy_bounds initial_strategy)"
  by (simp_all add: strategy_bounds_def list_all_iff)

lemma within_strategy_bounds:
  assumes "within_bounds (strategy_bounds initial_strategy) xs"
  shows "length xs = length initial_strategy"
    and "\<forall>v \<in> set xs. 1 / 100 \<le> v \<and> v \<le> 99 / 100"
proof -
  from assms have l2: "list_all2 (\<lambda>(lo, hi) v. lo \<le> v \<and> v \<le> hi)
      (map (\<lambda>_. (1 / 100, 99 / 100)) initial_strategy) xs"
    by (simp add: within_bounds_def strategy_bounds_def)
  then show len: "length xs = length initial_strategy"
    using list_all2_lengthD by fastforce
  show "\<forall>v \<in> set xs. 1 / 100 \<le> v \<and> v \<le> 99 / 100"
  proof
    fix v assume "v \<in> set xs"
    then obtain k where k: "k < length xs" "xs ! k = v"
      by (auto simp: in_set_conv_nth)
    with l2 len show "1 / 100 \<le> v \<and> v \<le> 99 / 100"
      by (auto simp: list_all2_conv_all_nth)
  qed
qed

lemma clip_within:
  assumes "length bounds = length x0" and "list_all (\<lambda>(lo, hi). lo \<le> hi) bounds"
  shows "within_bounds bounds (clip bounds x0)"
  unfolding within_bounds_def clip_def
  using assms
  by (auto simp: list_all2_conv_all_nth list_all_length split: prod.splits)

lemma respects_bounds_clip: "respects_bounds clip_minimize"
  unfolding respects_bounds_def clip_minimize_def
  by (auto simp: clip_within)

lemma bounds_passed_to_solver:
  assumes "respects_bounds minimize"
  shows "(result_annual minimize spy_df vix_df initial_strategy = Inr res \<longrightarrow>
            length (opt_x res) = length initial_strategy
            \<and> (\<forall>v \<in> set (opt_x res). 1 / 100 \<le> v \<and> v \<le> 99 / 100 \<and> v \<noteq> 0 \<and> v \<noteq> 1))
       \<and> (result_monthly_volatility minimize resample_M spy_df vix_df initial_strategy = Inr res' \<longrightarrow>
            length (opt_x res') = length initial_strategy
            \<and> (\<forall>v \<in> set (opt_x res'). 1 / 100 \<le> v \<and> v \<le> 99 / 100 \<and> v \<noteq> 0 \<and> v \<noteq> 1))"
proof (intro conjI impI)
  assume "result_annual minimize spy_df vix_df initial_strategy = Inr res"
  then have w: "within_bounds (strategy_bounds initial_strategy) (opt_x res)"
    using assms strategy_bounds_wf [of initial_strategy]
    unfolding respects_bounds_def result_annual_def by blast
  show "length (opt_x res) = length initial_strategy"
    by (rule within_strategy_bounds(1) [OF w])
  show "\<forall>v \<in> set (opt_x res). 1 / 100 \<le> v \<and> v \<le> 99 / 100 \<and> v \<noteq> 0 \<and> v \<noteq> 1"
    using within_strategy_bounds(2) [OF w] by fastforce
next
  assume "result_monthly_volatility minimize resample_M spy_df vix_df initial_strategy = Inr res'"
  then have w: "within_bounds (strategy_bounds initial_strategy) (opt_x res')"
    using assms strategy_bounds_wf [of initial_strategy]
    unfolding respects_bounds_def result_monthly_volatility_def by blast
  show "length (opt_x res') = length initial_strategy"
    by (rule within_strategy_bounds(1) [OF w])
  show "\<forall>v \<in> set (opt_x res'). 1 / 100 \<le> v \<and> v \<le> 99 / 100 \<and> v \<noteq> 0 \<and> v \<noteq> 1"
    using within_strategy_bounds(2) [OF w] by fastforce
qed

lemma clip_example_table: "clip (strategy_bounds example_table) example_table = clipped_table"
  by (simp add: clip_def strategy_bounds_def example_table_def clipped_table_def numeral_eq_Suc)

lemma bounds_passed_to_solver_instance:
  "respects_bounds clip_minimize
   \<and> result_annual clip_minimize scenario_spy scenario_vix example_table
       = Inr \<lparr>opt_x = clipped_table, success = True,
              message = ''Optimization terminated successfully''\<rparr>
   \<and> result_monthly_volatility clip_minimize one_month scenario_spy scenario_vix example_table
       = Inr \<lparr>opt_x = clipped_table, success = True,
              message = ''Optimization terminated successfully''\<rparr>
   \<and> length clipped_table = 37
   \<and> list_all (\<lambda>v. 1 / 100 \<le> v \<and> v \<le> 99 / 100 \<and> v \<noteq> 0 \<and> v \<noteq> 1) clipped_table"
proof -
  let ?res = "\<lparr>opt_x = clipped_table, success = True,
              message = ''Optimization terminated successfully''\<rparr>"
  have a: "result_annual clip_minimize scenario_spy scenario_vix example_table = Inr ?res"
    by (simp add: result_annual_def clip_minimize_def clip_example_table)
  have m: "result_monthly_volatility clip_minimize one_month scenario_spy scenario_vix example_table
             = Inr ?res"
    by (simp add: result_monthly_volatility_def clip_minimize_def clip_example_table)
  from bounds_passed_to_solver [OF respects_bounds_clip,
      of scenario_spy scenario_vix example_table ?res one_month ?res] a m
  have "length clipped_table = length example_table
        \<and> (\<forall>v \<in> set clipped_table. 1 / 100 \<le> v \<and> v \<le> 99 / 100 \<and> v \<noteq> 0 \<and> v \<noteq> 1)"
    by simp
  then have "length clipped_table = 37
     \<and> list_all (\<lambda>v. 1 / 100 \<le> v \<and> v \<le> 99 / 100 \<and> v \<noteq> 0 \<and> v \<noteq> 1) clipped_table"
    by (simp add: example_table_simps list_all_iff)
  with respects_bounds_clip a m show ?thesis by blast
qed

lemma float_pow_positive: "0 < x \<Longrightarrow> \<exists>v. float_pow x y = Some v"
  by (simp add: float_pow_def)

lemma annual_return_finite:
  assumes "xs \<noteq> []" and "0 < prod_list (map (\<lambda>r. 1 + r) xs)"
  shows "\<exists>v. calculate_annual_return xs = Inr (Some v)"
proof -
  obtain p where "float_pow (prod_list (map (\<lambda>r. 1 + r) xs)) (1 / (real (length xs) / 252)) = Some p"
    using float_pow_positive [OF assms(2)] by blast
  then show ?thesis
    using assms(1) by (simp add: calculate_annual_return_def Let_def)
qed

lemma scenario_returns:
  "dropna (Portfolio_Return_series scenario_out) = [(1, 1 / 100), (2, 6 / 1000), (3, 2 / 100)]"
  by (simp add: dropna_def Portfolio_Return_series_def scenario_out_def example_day_def
      List.map_filter_simps)

lemma scenario_annual_objective:
  "\<exists>v. objective_function_annual_return example_table scenario_spy scenario_vix = Inr (Some v)"
proof -
  have "\<exists>v. calculate_annual_return [1 / 100, 6 / 1000, 2 / 100] = Inr (Some v)"
    by (rule annual_return_finite) simp_all
  then show ?thesis
    by (auto simp: objective_function_annual_return_def scenario_run scenario_returns)
qed

lemma scenario_monthly_objective:
  "objective_function_monthly_volatility one_month example_table scenario_spy scenario_vix = Inr None"
  by (simp add: objective_function_monthly_volatility_def scenario_run scenario_returns
      calculate_monthly_volatility_def one_month_def std_def)

section \<open>Properties of the strategy simulator, the metrics and the driver\<close>

text \<open>
  Claim C1, as the code has it. On aligned frames, a reading of 36 or more (36.0, 500.0)
  gets level 36 and the table's entry 36, and a reading of exactly 12.0 gets level 12.
  A reading of 35.99 equals no level: the day keeps the defaults, level label 0 and
  allocation 1.0, and is not floored to level 35.
\<close>

theorem level_assignment:
  assumes "implement_strategy spy_df vix_df strategy = Inr out"
    and "map fst vix_df = map Date spy_df" and "k < length spy_df"
  shows "(snd (vix_df ! k) = Some x \<and> 36 \<le> x \<longrightarrow>
            VIX_Level (out ! k) = 36 \<and> SPY_Allocation (out ! k) = strategy ! 36)
       \<and> (snd (vix_df ! k) = Some 12 \<longrightarrow>
            VIX_Level (out ! k) = 12 \<and> SPY_Allocation (out ! k) = strategy ! 12)
       \<and> (snd (vix_df ! k) = Some (3599 / 100) \<longrightarrow>
            VIX_Level (out ! k) = 0 \<and> SPY_Allocation (out ! k) = 1 \<and> SH_Allocation (out ! k) = 0)"
  unfolding out_nth [OF assms] level_row_fields
  by (auto simp: matched_level_def)

theorem level_assignment_witness:
  "implement_strategy levels_spy levels_vix example_table = Inr levels_out
   \<and> VIX_Level (levels_out ! 0) = 0 \<and> SPY_Allocation (levels_out ! 0) = 1
   \<and> VIX_Level (levels_out ! 1) = 36 \<and> VIX_Level (levels_out ! 2) = 36
   \<and> VIX_Level (levels_out ! 3) = 12"
proof -
  have r0: "snd (levels_vix ! 0) = Some (3599 / 100)" and r1: "snd (levels_vix ! 1) = Some 36"
    and r2: "snd (levels_vix ! 2) = Some 500" and r3: "snd (levels_vix ! 3) = Some 12"
    by (simp_all add: levels_vix_def)
  have k: "0 < length levels_spy" "1 < length levels_spy" "2 < length levels_spy"
    "3 < length levels_spy"
    by (simp_all add: levels_spy_def)
  from level_assignment [OF levels_run levels_aligned k(1)] r0
  have "VIX_Level (levels_out ! 0) = 0 \<and> SPY_Allocation (levels_out ! 0) = 1" by simp
  moreover from level_assignment [OF levels_run levels_aligned k(2), where x = 36] r1
  have "VIX_Level (levels_out ! 1) = 36" by simp
  moreover from level_assignment [OF levels_run levels_aligned k(3), where x = 500] r2
  have "VIX_Level (levels_out ! 2) = 36" by simp
  moreover from level_assignment [OF levels_run levels_aligned k(4)] r3
  have "VIX_Level (levels_out ! 3) = 12" by simp
  ultimately show ?thesis using levels_run by blast
qed

theorem floor_level_counterexample:
  "implement_strategy [example_day 1 (Some (1 / 100))] [(1, Some (3599 / 100))] example_table
   = Inr [(example_day 1 (Some (1 / 100)))
            \<lparr>SPY_Allocation := 1, SH_Allocation := 0, VIX_Level := 0,
              Portfolio_Return := Some (1 / 100)\<rparr>]"
proof -
  have al: "map fst [(1::nat, Some (3599 / 100 :: real))] = map Date [example_day 1 (Some (1 / 100))]"
    by (simp add: example_day_def)
  show ?thesis
    by (subst implement_strategy_aligned [OF al]) (simp_all add: example_table_simps row_eval)
qed




text \<open>
  Claim C3. On every day of the result the portfolio return is the day's return times
  the risky allocation minus the same return times the hedge allocation. For the
  returns 0.01, -0.01, 0.02 with readings 5, 40, 5 and a table with entry 5 equal to
  1.0 and entry 36 equal to 0.2, the portfolio returns are 0.01, 0.006, 0.02.
\<close>

theorem portfolio_return_formula:
  assumes "implement_strategy spy_df vix_df strategy = Inr out"
  shows "(\<forall>d \<in> set out. Portfolio_Return d =
            flt_minus (flt_times (Daily_Return d) (SPY_Allocation d))
                      (flt_times (Daily_Return d) (SH_Allocation d)))
       \<and> map Daily_Return out = map Daily_Return spy_df
       \<and> (map fst vix_df = map Date spy_df
            \<and> map Daily_Return spy_df = [Some (1 / 100), Some (- (1 / 100)), Some (2 / 100)]
            \<and> map snd vix_df = [Some 5, Some 40, Some 5]
            \<and> strategy ! 5 = 1 \<and> strategy ! 36 = 2 / 10 \<longrightarrow>
          map Portfolio_Return out = [Some (1 / 100), Some (6 / 1000), Some (2 / 100)])"
proof (intro conjI impI)
  show "\<forall>d \<in> set out. Portfolio_Return d =
            flt_minus (flt_times (Daily_Return d) (SPY_Allocation d))
                      (flt_times (Daily_Return d) (SH_Allocation d))"
    using out_row(2) [OF assms] by blast
  show "map Daily_Return out = map Daily_Return spy_df"
    by (rule out_Daily_Return(1) [OF assms])
next
  assume h: "map fst vix_df = map Date spy_df
            \<and> map Daily_Return spy_df = [Some (1 / 100), Some (- (1 / 100)), Some (2 / 100)]
            \<and> map snd vix_df = [Some 5, Some 40, Some 5]
            \<and> strategy ! 5 = 1 \<and> strategy ! 36 = 2 / 10"
  then obtain d1 d2 d3 where spy: "spy_df = [d1, d2, d3]"
    and r: "Daily_Return d1 = Some (1 / 100)" "Daily_Return d2 = Some (- (1 / 100))"
      "Daily_Return d3 = Some (2 / 100)"
    by (auto simp: map_eq_Cons_conv)
  have m5: "matched_level (Some 5) = Some 5"
    using matched_level_exact [of 5] by simp
  have m40: "matched_level (Some 40) = Some 36"
    by (simp add: matched_level_def)
  from implement_strategy_Inr [OF assms] h
  have "out = map (\<lambda>(v, d). portfolio_column (level_row strategy v (default_columns d)))
                (zip [Some 5, Some 40, Some 5] spy_df)"
    by (auto simp: aligned_readings_same)
  then show "map Portfolio_Return out = [Some (1 / 100), Some (6 / 1000), Some (2 / 100)]"
    using h r unfolding spy
    by (simp add: portfolio_column_def level_row_def default_columns_def m5 m40
        flt_minus_def flt_times_def)
qed

theorem portfolio_return_formula_witness:
  "implement_strategy scenario_spy scenario_vix example_table = Inr scenario_out
   \<and> map Portfolio_Return scenario_out = [Some (1 / 100), Some (6 / 1000), Some (2 / 100)]"
proof -
  have "map Daily_Return scenario_spy = [Some (1 / 100), Some (- (1 / 100)), Some (2 / 100)]"
    by (simp add: scenario_spy_def example_day_def)
  moreover have "map snd scenario_vix = [Some 5, Some 40, Some 5]"
    by (simp add: scenario_vix_def)
  ultimately have "map Portfolio_Return scenario_out = [Some (1 / 100), Some (6 / 1000), Some (2 / 100)]"
    using portfolio_return_formula [OF scenario_run] scenario_aligned
    by (simp add: example_table_simps)
  with scenario_run show ?thesis by (rule conjI)
qed

text \<open>
  Claim C4. On every day of every result the hedge allocation is 1 minus the risky
  allocation, default days included; and on aligned frames with a table of 37 entries
  the function does return a result, with the dates of its input.
\<close>

theorem hedge_is_complement:
  "(implement_strategy spy_df vix_df strategy = Inr out \<longrightarrow>
      (\<forall>d \<in> set out. SH_Allocation d = 1 - SPY_Allocation d))
   \<and> (map fst vix_df = map Date spy_df \<and> length strategy = 37 \<longrightarrow>
      (\<exists>out'. implement_strategy spy_df vix_df strategy = Inr out'
          \<and> map Date out' = map Date spy_df))"
proof (intro conjI impI)
  assume "implement_strategy spy_df vix_df strategy = Inr out"
  then show "\<forall>d \<in> set out. SH_Allocation d = 1 - SPY_Allocation d"
    using out_row(1) by blast
next
  assume h: "map fst vix_df = map Date spy_df \<and> length strategy = 37"
  then obtain out' where run: "implement_strategy spy_df vix_df strategy = Inr out'"
    using implement_strategy_aligned [of vix_df spy_df strategy] by simp
  then show "\<exists>out'. implement_strategy spy_df vix_df strategy = Inr out'
          \<and> map Date out' = map Date spy_df"
    using out_Daily_Return(2) by blast
qed

theorem hedge_is_complement_witness:
  "implement_strategy scenario_spy scenario_vix example_table = Inr scenario_out
   \<and> SH_Allocation (scenario_out ! 1) = 1 - SPY_Allocation (scenario_out ! 1)
   \<and> map Date scenario_out = map Date scenario_spy"
proof -
  note h = hedge_is_complement [of scenario_spy scenario_vix example_table scenario_out]
  have "scenario_out ! 1 \<in> set scenario_out"
    by (simp add: scenario_out_def)
  with h scenario_run
  have "SH_Allocation (scenario_out ! 1) = 1 - SPY_Allocation (scenario_out ! 1)"
    by blast
  moreover from h scenario_aligned scenario_run
  have "map Date scenario_out = map Date scenario_spy"
    by (simp add: example_table_simps)
  ultimately show ?thesis using scenario_run by blast
qed

text \<open>
  Claim C5, as the code has it. A constant daily return \<open>r\<close> over 252 days has the
  annualized return \<open>(1 + r) ^ 252 - 1\<close>: the number of years is 1, so the compounded
  product is raised to the power 1. It is not \<open>r\<close>.
\<close>

theorem annual_return_constant_252:
  "calculate_annual_return (replicate 252 r) = Inr (Some ((1 + r) ^ 252 - 1))"
  by (simp add: calculate_annual_return_def float_pow_def prod_list_replicate)

theorem annual_return_counterexample:
  "calculate_annual_return (replicate 252 (1 / 100)) \<noteq> Inr (Some (1 / 100))"
proof -
  have "1 + real 252 * (1 / 100) \<le> (1 + 1 / 100 :: real) ^ 252"
    by (rule Bernoulli_inequality) simp
  then have "(1 + 1 / 100 :: real) ^ 252 - 1 \<noteq> 1 / 100"
    by simp
  then show ?thesis
    by (simp add: calculate_annual_return_def float_pow_def prod_list_replicate
             del: power_numeral)
qed

text \<open>
  Claim C7. The solver's result carries the flag \<open>success\<close> and a message. When the
  first optimization reports no success, or the first succeeds and the second reports
  no success, \<^verbatim>\<open>main\<close> prints the failure with the solver's message and emits nothing
  else; an optimized table, a CSV file or a metric is emitted only when both results
  report success.
\<close>

theorem non_convergence_aborts:
  "(result_annual minimize spy_df vix_df initial_strategy = Inr res \<and> \<not> success res \<longrightarrow>
      main minimize resample_M spy_df vix_df initial_strategy
        = [Print_failed ''Optimization for average annual return failed:'' (message res)])
   \<and> (result_annual minimize spy_df vix_df initial_strategy = Inr res \<and> success res
        \<and> result_monthly_volatility minimize resample_M spy_df vix_df initial_strategy = Inr res'
        \<and> \<not> success res' \<longrightarrow>
      main minimize resample_M spy_df vix_df initial_strategy
        = [Print_failed ''Optimization for monthly volatility failed:'' (message res')])
   \<and> (e \<in> set (main minimize resample_M spy_df vix_df initial_strategy) \<and> dependent_output e \<longrightarrow>
        (\<exists>r r'. result_annual minimize spy_df vix_df initial_strategy = Inr r \<and> success r
           \<and> result_monthly_volatility minimize resample_M spy_df vix_df initial_strategy = Inr r'
           \<and> success r'))"
  by (auto simp: main_def split: sum.splits if_splits)

theorem non_convergence_aborts_witness:
  "main failing_minimize one_month scenario_spy scenario_vix example_table
     = [Print_failed ''Optimization for average annual return failed:'' ''Iteration limit reached'']
   \<and> main probe_minimize one_month scenario_spy scenario_vix example_table
     = [Print_failed ''Optimization for monthly volatility failed:'' ''Iteration limit reached'']
   \<and> Print_allocations ''Optimal Strategy Allocations for Average Annual Return:''
         (allocation_lines clipped_table)
       \<in> set (main clip_minimize one_month scenario_spy scenario_vix example_table)
   \<and> success \<lparr>opt_x = clipped_table, success = True,
               message = ''Optimization terminated successfully''\<rparr>"
proof -
  let ?fail = "\<lparr>opt_x = example_table, success = False, message = ''Iteration limit reached''\<rparr>"
  let ?ok = "\<lparr>opt_x = clipped_table, success = True,
               message = ''Optimization terminated successfully''\<rparr>"
  let ?nan = "\<lparr>opt_x = clipped_table, success = False, message = ''Iteration limit reached''\<rparr>"
  have a1: "result_annual failing_minimize scenario_spy scenario_vix example_table = Inr ?fail"
    by (simp add: result_annual_def failing_minimize_def)
  have a2: "result_annual probe_minimize scenario_spy scenario_vix example_table = Inr ?ok"
    using scenario_annual_objective
    by (auto simp: result_annual_def probe_minimize_def clip_example_table)
  have m2: "result_monthly_volatility probe_minimize one_month scenario_spy scenario_vix example_table
              = Inr ?nan"
    by (simp add: result_monthly_volatility_def probe_minimize_def clip_example_table
        scenario_monthly_objective)
  have a3: "result_annual clip_minimize scenario_spy scenario_vix example_table = Inr ?ok"
    by (simp add: result_annual_def clip_minimize_def clip_example_table)
  have m3: "result_monthly_volatility clip_minimize one_month scenario_spy scenario_vix example_table
              = Inr ?ok"
    by (simp add: result_monthly_volatility_def clip_minimize_def clip_example_table)
  have first: "main failing_minimize one_month scenario_spy scenario_vix example_table
     = [Print_failed ''Optimization for average annual return failed:'' ''Iteration limit reached'']"
    using non_convergence_aborts [of failing_minimize scenario_spy scenario_vix example_table ?fail
        one_month] a1
    by simp
  have second: "main probe_minimize one_month scenario_spy scenario_vix example_table
     = [Print_failed ''Optimization for monthly volatility failed:'' ''Iteration limit reached'']"
    using non_convergence_aborts [of probe_minimize scenario_spy scenario_vix example_table ?ok
        one_month ?nan] a2 m2
    by simp
  let ?e = "Print_allocations ''Optimal Strategy Allocations for Average Annual Return:''
         (allocation_lines clipped_table)"
  have mem: "?e \<in> set (main clip_minimize one_month scenario_spy scenario_vix example_table)"
    by (simp add: main_def a3 m3 report_def)
  have dep: "dependent_output ?e" by simp
  from non_convergence_aborts [of clip_minimize scenario_spy scenario_vix example_table _
      one_month _ ?e] mem dep
  have "\<exists>r r'. result_annual clip_minimize scenario_spy scenario_vix example_table = Inr r \<and> success r
           \<and> result_monthly_volatility clip_minimize one_month scenario_spy scenario_vix example_table = Inr r'
           \<and> success r'"
    by blast
  then have "success ?ok"
    by (simp add: a3)
  with first second mem show ?thesis by blast
qed

text \<open>
  Claim C8. The model's functions are functions of their arguments; what a call leaves
  behind does not change the next one. The simulator and both objectives depend on
  the frame only through its dates, prices and daily returns, not through the columns
  an earlier call wrote; so a second call on the frame that \<^verbatim>\<open>implement_strategy\<close> has
  returned gives the same records and the same objective values.
\<close>

theorem rerun_deterministic:
  "(map Date a = map Date b \<and> map Adj_Close a = map Adj_Close b
      \<and> map Daily_Return a = map Daily_Return b \<longrightarrow>
      implement_strategy a vix_df strategy = implement_strategy b vix_df strategy
      \<and> objective_function_annual_return strategy a vix_df
          = objective_function_annual_return strategy b vix_df
      \<and> objective_function_monthly_volatility resample_M strategy a vix_df
          = objective_function_monthly_volatility resample_M strategy b vix_df)
   \<and> (implement_strategy spy_df vix_df strategy = Inr out \<longrightarrow>
      implement_strategy out vix_df strategy = Inr out
      \<and> objective_function_annual_return strategy out vix_df
          = objective_function_annual_return strategy spy_df vix_df
      \<and> objective_function_monthly_volatility resample_M strategy out vix_df
          = objective_function_monthly_volatility resample_M strategy spy_df vix_df)"
proof (intro conjI impI)
  assume h: "map Date a = map Date b \<and> map Adj_Close a = map Adj_Close b
      \<and> map Daily_Return a = map Daily_Return b"
  then have eq: "implement_strategy a vix_df strategy = implement_strategy b vix_df strategy"
    by (intro implement_strategy_cong) simp_all
  show "implement_strategy a vix_df strategy = implement_strategy b vix_df strategy"
    by (rule eq)
  show "objective_function_annual_return strategy a vix_df
          = objective_function_annual_return strategy b vix_df"
    by (simp add: objective_function_annual_return_def eq)
  show "objective_function_monthly_volatility resample_M strategy a vix_df
          = objective_function_monthly_volatility resample_M strategy b vix_df"
    by (simp add: objective_function_monthly_volatility_def eq)
next
  assume run: "implement_strategy spy_df vix_df strategy = Inr out"
  have eq: "implement_strategy out vix_df strategy = implement_strategy spy_df vix_df strategy"
    by (rule implement_strategy_cong) (rule out_Daily_Return [OF run])+
  show "implement_strategy out vix_df strategy = Inr out"
    using eq run by simp
  show "objective_function_annual_return strategy out vix_df
          = objective_function_annual_return strategy spy_df vix_df"
    by (simp add: objective_function_annual_return_def eq)
  show "objective_function_monthly_volatility resample_M strategy out vix_df
          = objective_function_monthly_volatility resample_M strategy spy_df vix_df"
    by (simp add: objective_function_monthly_volatility_def eq)
qed

theorem rerun_deterministic_witness:
  "implement_strategy scenario_out scenario_vix example_table = Inr scenario_out
   \<and> objective_function_annual_return example_table scenario_out scenario_vix
       = objective_function_annual_return example_table scenario_spy scenario_vix
   \<and> objective_function_monthly_volatility one_month example_table scenario_out scenario_vix
       = objective_function_monthly_volatility one_month example_table scenario_spy scenario_vix"
proof -
  have "map Date scenario_out = map Date scenario_spy \<and> map Adj_Close scenario_out = map Adj_Close scenario_spy
      \<and> map Daily_Return scenario_out = map Daily_Return scenario_spy"
    by (simp add: scenario_out_def scenario_spy_def)
  with rerun_deterministic [of scenario_out scenario_spy scenario_vix example_table one_month
      scenario_spy scenario_out] scenario_run
  show ?thesis by simp
qed



text \<open>
  Claim C10, as the code has it. On every day of the result the portfolio return is
  the day's return times \<open>2 * riskyAllocation - 1\<close>: with the risky allocation 1.0 it is
  the day's return, and with the risky allocation 0.5 it is 0 on a day whose return is
  a number. On a day whose return is NaN (the first row of every frame) it is NaN,
  also at the allocation 0.5. The returns of the result are those of the input frame.
\<close>

theorem portfolio_return_factored:
  assumes "implement_strategy spy_df vix_df strategy = Inr out" and "d \<in> set out"
  shows "Portfolio_Return d = flt_times (Daily_Return d) (2 * SPY_Allocation d - 1)
       \<and> (SPY_Allocation d = 1 \<longrightarrow> Portfolio_Return d = Daily_Return d)
       \<and> (SPY_Allocation d = 1 / 2 \<and> Daily_Return d \<noteq> None \<longrightarrow> Portfolio_Return d = Some 0)
       \<and> (Daily_Return d = None \<longrightarrow> Portfolio_Return d = None)
       \<and> map Daily_Return out = map Daily_Return spy_df"
proof -
  have "Portfolio_Return d = flt_times (Daily_Return d) (2 * SPY_Allocation d - 1)"
    using out_row [OF assms] by (simp add: flt_factored)
  then show ?thesis
    using out_Daily_Return(1) [OF assms(1)]
    by (cases "Daily_Return d") (auto simp: flt_times_def)
qed

theorem portfolio_return_factored_witness:
  "implement_strategy half_spy half_vix example_table = Inr half_out
   \<and> Portfolio_Return (half_out ! 0) = Daily_Return (half_out ! 0)
   \<and> Portfolio_Return (half_out ! 1) = Some 0
   \<and> implement_strategy nan_spy nan_vix example_table = Inr nan_out
   \<and> Portfolio_Return (nan_out ! 0) = None"
proof -
  have m0: "half_out ! 0 \<in> set half_out" and m1: "half_out ! 1 \<in> set half_out"
    by (simp_all add: half_out_def)
  have a0: "SPY_Allocation (half_out ! 0) = 1"
    and a1: "SPY_Allocation (half_out ! 1) = 1 / 2 \<and> Daily_Return (half_out ! 1) \<noteq> None"
    by (simp_all add: half_out_def example_day_def)
  have n0: "nan_out ! 0 \<in> set nan_out" and r0: "Daily_Return (nan_out ! 0) = None"
    by (simp_all add: nan_out_def example_day_def)
  from portfolio_return_factored [OF half_run m0] a0
  have "Portfolio_Return (half_out ! 0) = Daily_Return (half_out ! 0)" by blast
  moreover from portfolio_return_factored [OF half_run m1] a1
  have "Portfolio_Return (half_out ! 1) = Some 0" by blast
  moreover from portfolio_return_factored [OF nan_run n0] r0
  have "Portfolio_Return (nan_out ! 0) = None" by blast
  ultimately show ?thesis using half_run nan_run by blast
qed

theorem nan_day_counterexample:
  "implement_strategy [example_day 1 None] [(1, Some 20)] example_table
     = Inr [(example_day 1 None)
              \<lparr>SPY_Allocation := 1 / 2, SH_Allocation := 1 / 2, VIX_Level := 20,
                Portfolio_Return := None\<rparr>]
   \<and> SPY_Allocation ((example_day 1 None)
              \<lparr>SPY_Allocation := 1 / 2, SH_Allocation := 1 / 2, VIX_Level := 20,
                Portfolio_Return := None\<rparr>) = 1 / 2
   \<and> Portfolio_Return ((example_day 1 None)
              \<lparr>SPY_Allocation := 1 / 2, SH_Allocation := 1 / 2, VIX_Level := 20,
                Portfolio_Return := None\<rparr>) \<noteq> Some 0"
proof -
  have al: "map fst [(1::nat, Some (20 :: real))] = map Date [example_day 1 None]"
    by (simp add: example_day_def)
  have "implement_strategy [example_day 1 None] [(1, Some 20)] example_table
     = Inr [(example_day 1 None)
              \<lparr>SPY_Allocation := 1 / 2, SH_Allocation := 1 / 2, VIX_Level := 20,
                Portfolio_Return := None\<rparr>]"
    by (subst implement_strategy_aligned [OF al])
      (simp_all add: example_table_simps example_table_def row_eval)
  then show ?thesis by simp
qed

end
